theory Spec2Isabelle
  imports Complex_Main
begin

section \<open>The mecanum robot of \<open>scripts/robot.py\<close>\<close>

text \<open>
  The development embeds the kinematic, pose-integration and ranging code of the class
  \<open>Robot\<close>. Python floats are read as real numbers, so the statements below are about
  the exact arithmetic of the program text; the segment intersection is embedded a second
  time on doubles, every operation rounded. Exceptions are values of \<open>py_error\<close>; a
  function that can raise returns \<open>py_error + 'a\<close> with \<open>Inl\<close> for the exception.
\<close>

subsection \<open>Exceptions\<close>

datatype py_error = ZeroDivisionError | ValueError | IndexError

definition ebind :: "py_error + 'a \<Rightarrow> ('a \<Rightarrow> py_error + 'b) \<Rightarrow> py_error + 'b" where
  "ebind m f = (case m of Inl e \<Rightarrow> Inl e | Inr x \<Rightarrow> f x)"

text \<open>Float division \<open>a / b\<close> raises on a zero divisor; \<open>math.sqrt\<close> raises on a negative argument.\<close>

definition py_div :: "real \<Rightarrow> real \<Rightarrow> py_error + real" where
  "py_div a b = (if b = 0 then Inl ZeroDivisionError else Inr (a / b))"

definition py_sqrt :: "real \<Rightarrow> py_error + real" where
  "py_sqrt a = (if a < 0 then Inl ValueError else Inr (sqrt a))"

text \<open>Reading and writing a list by a non-negative index, as \<open>xs[i]\<close> and \<open>xs[i] = x\<close>.\<close>

definition list_get :: "'a list \<Rightarrow> nat \<Rightarrow> py_error + 'a" where
  "list_get xs i = (if i < length xs then Inr (xs ! i) else Inl IndexError)"

definition list_set :: "'a list \<Rightarrow> nat \<Rightarrow> 'a \<Rightarrow> py_error + 'a list" where
  "list_set xs i x = (if i < length xs then Inr (xs[i := x]) else Inl IndexError)"

text \<open>\<open>int(x)\<close> on a float truncates towards zero.\<close>

definition py_int :: "real \<Rightarrow> int" where
  "py_int x = (if 0 \<le> x then \<lfloor>x\<rfloor> else \<lceil>x\<rceil>)"

subsection \<open>Class attributes\<close>

type_synonym point = "real \<times> real"

definition obstacle_radius :: real where "obstacle_radius = 0.2"
definition angle_min :: real where "angle_min = - 135 * pi / 180"
definition angle_inc :: real where "angle_inc = 1.0 * pi / 180"
definition laserbeams :: nat where "laserbeams = 271"
definition laser_range :: real where "laser_range = 8.0"
definition rng_tof :: real where "rng_tof = 8.0"
definition offset_tof :: real where "offset_tof = 0.2"
definition wheel_radius :: real where "wheel_radius = 0.05"
definition wheel_base :: real where "wheel_base = 0.3"
definition track :: real where "track = 0.2"

text \<open>
  The five ToF lists are attributes of the class object, not of an instance: \<open>__init__\<close>
  never assigns them, it appends to them through \<open>self\<close>. They are therefore one store
  shared by all robots.
\<close>

record tof_class =
  phi_tof :: "real list"
  t_tof :: "real list"
  v_face :: "point list"
  pos_tof :: "point list"
  far_tof :: "point list"

definition Robot_class :: tof_class where
  "Robot_class = \<lparr>phi_tof = [], t_tof = [], v_face = [], pos_tof = [], far_tof = []\<rparr>"

subsection \<open>Instances\<close>

text \<open>\<open>rospy.Time\<close> and \<open>rospy.Duration\<close> count integer nanoseconds; \<open>to_sec\<close> converts.\<close>

type_synonym rostime = int

definition to_sec :: "rostime \<Rightarrow> real" where
  "to_sec d = real_of_int d / 1000000000"

record robot =
  initial_coords :: point
  initial_theta :: real
  reset :: bool
  coords :: point
  theta :: real
  v :: point
  omega :: real
  angle_max :: real
  timestamp :: rostime
  last_command :: rostime

subsection \<open>Drive kinematics\<close>

text \<open>
  \<open>np.matrix\<close> values are lists of rows. \<open>M.dot(x)\<close> with a one-dimensional \<open>x\<close> yields
  a matrix with the single row \<open>M x\<close>, which the code reads as \<open>res[0, j]\<close>; \<open>mat_dot\<close>
  is that row.
\<close>

definition dot_rows :: "real list \<Rightarrow> real list \<Rightarrow> real" where
  "dot_rows a b = sum_list (map2 (*) a b)"

definition mat_dot :: "real list list \<Rightarrow> real list \<Rightarrow> real list" where
  "mat_dot M x = map (\<lambda>row. dot_rows row x) M"

definition mat_mul :: "real list list \<Rightarrow> real list list \<Rightarrow> real list list" where
  "mat_mul A B = map (\<lambda>row. map (\<lambda>col. dot_rows row col) (transpose B)) A"

fun inv3 :: "real list list \<Rightarrow> real list list" where
  "inv3 [[a, b, c], [d, e, f], [g, h, i]] =
     (let det = a * (e * i - f * h) - b * (d * i - f * g) + c * (d * h - e * g)
      in [[(e * i - f * h) / det, (c * h - b * i) / det, (b * f - c * e) / det],
          [(f * g - d * i) / det, (a * i - c * g) / det, (c * d - a * f) / det],
          [(d * h - e * g) / det, (b * g - a * h) / det, (a * e - b * d) / det]])"
| "inv3 M = M"

text \<open>
  \<open>np.linalg.pinv\<close> is library code. For a matrix with three independent columns the
  Moore-Penrose pseudo-inverse is \<open>(A\<^sup>T A)\<^sup>-\<^sup>1 A\<^sup>T\<close>, which is what \<open>pinv\<close> computes; the
  lemma \<open>Tinv_penrose\<close> below checks the four Penrose equations for the matrix of this robot.
\<close>

definition pinv :: "real list list \<Rightarrow> real list list" where
  "pinv A = mat_mul (inv3 (mat_mul (transpose A) A)) (transpose A)"

definition lxly :: real where
  "lxly = (wheel_base / 2 + track / 2) / wheel_radius"

definition rinv :: real where
  "rinv = 1 / wheel_radius"

text \<open>Rows: front left, front right, rear left, rear right (the order of \<open>callback_wheel_speed\<close>).\<close>

definition T :: "real list list" where
  "T = [[  rinv, - rinv, - lxly],
        [- rinv, - rinv, - lxly],
        [  rinv,   rinv, - lxly],
        [- rinv,   rinv, - lxly]]"

definition Tinv :: "real list list" where
  "Tinv = pinv T"

text \<open>\<open>set_velocity\<close> also computes \<open>omega_i = T.dot(x)\<close> and drops it.\<close>

definition set_velocity :: "robot \<Rightarrow> real \<Rightarrow> real \<Rightarrow> real \<Rightarrow> robot" where
  "set_velocity self vx vy om = self\<lparr>v := (vx, vy), omega := om\<rparr>"

definition set_wheel_speed :: "robot \<Rightarrow> real list \<Rightarrow> py_error + robot" where
  "set_wheel_speed self omega_wheel =
     ebind (list_get omega_wheel 0) (\<lambda>w0.
     ebind (list_get omega_wheel 1) (\<lambda>w1.
     ebind (list_get omega_wheel 2) (\<lambda>w2.
     ebind (list_get omega_wheel 3) (\<lambda>w3.
       let res = mat_dot Tinv [w0, w1, w2, w3]
       in Inr (set_velocity self (res ! 0) (res ! 1) (res ! 2))))))"

subsection \<open>Pose integration\<close>

text \<open>
  One pass through the body of the \<open>while\<close> loop of \<open>trigger\<close>, with \<open>now\<close> the value
  \<open>rospy.Time.now()\<close> returns in it. Publishing the pose and the sleeps change no field.
\<close>

definition trigger_step :: "rostime \<Rightarrow> robot \<Rightarrow> robot" where
  "trigger_step now self =
     (let elapsed = to_sec (now - timestamp self);
          s1 = self\<lparr>timestamp := now\<rparr>;
          last_command_arrival = now - last_command s1;
          s2 = (if to_sec last_command_arrival > 0.5
                then s1\<lparr>v := (0, 0), omega := 0\<rparr> else s1);
          s3 = s2\<lparr>theta := theta s2 + omega s2 * elapsed\<rparr>;
          cos_theta = cos (theta s3);
          sin_theta = sin (theta s3);
          v0 = cos_theta * fst (v s3) - sin_theta * snd (v s3);
          v1 = sin_theta * fst (v s3) + cos_theta * snd (v s3);
          s4 = s3\<lparr>coords := (fst (coords s3) + v0 * elapsed, snd (coords s3) + v1 * elapsed)\<rparr>
      in if reset s4
         then s4\<lparr>coords := initial_coords s4, theta := initial_theta s4, reset := False\<rparr>
         else s4)"

subsection \<open>Construction\<close>

text \<open>
  \<open>__init__\<close> appends one angle and one mount offset per beam to the class lists, then one
  placeholder per entry of the (whole) angle list to each of the three derived lists.
\<close>

definition init_beam :: "tof_class \<Rightarrow> nat \<Rightarrow> tof_class" where
  "init_beam cls i = cls\<lparr>phi_tof := phi_tof cls @ [real i * angle_inc + angle_min],
                         t_tof := t_tof cls @ [offset_tof]\<rparr>"

definition init_slot :: "tof_class \<Rightarrow> nat \<Rightarrow> tof_class" where
  "init_slot cls i = cls\<lparr>v_face := v_face cls @ [(0, 0)],
                         pos_tof := pos_tof cls @ [(0, 0)],
                         far_tof := far_tof cls @ [(0, 0)]\<rparr>"

definition Robot_init :: "tof_class \<Rightarrow> real \<Rightarrow> real \<Rightarrow> real \<Rightarrow> rostime \<Rightarrow> tof_class \<times> robot" where
  "Robot_init cls x y th now =
     (let cls1 = foldl init_beam cls [0 ..< laserbeams];
          cls2 = foldl init_slot cls1 [0 ..< length (phi_tof cls1)];
          self = \<lparr>initial_coords = (x, y), initial_theta = th, reset = False,
                  coords = (x, y), theta = th, v = (0, 0), omega = 0,
                  angle_max = angle_min + real (laserbeams - 1) * angle_inc,
                  timestamp = now, last_command = now\<rparr>
      in (cls2, self))"

text \<open>Constructing robots one after the other, each from the class state the last one left.\<close>

fun construct_robots :: "tof_class \<Rightarrow> (real \<times> real \<times> real \<times> rostime) list \<Rightarrow> tof_class \<times> robot list" where
  "construct_robots cls [] = (cls, [])"
| "construct_robots cls ((x, y, th, now) # rest) =
     (let (cls1, r) = Robot_init cls x y th now;
          (cls2, rs) = construct_robots cls1 rest
      in (cls2, r # rs))"

definition get_tof_count :: "tof_class \<Rightarrow> robot \<Rightarrow> nat" where
  "get_tof_count cls self = length (phi_tof cls)"

subsection \<open>Geometry primitives\<close>

definition line_length :: "point \<Rightarrow> point \<Rightarrow> py_error + real" where
  "line_length p1 p2 =
     py_sqrt ((fst p1 - fst p2) * (fst p1 - fst p2) + (snd p1 - snd p2) * (snd p1 - snd p2))"

definition line :: "point \<Rightarrow> point \<Rightarrow> real \<times> real \<times> real" where
  "line p1 p2 =
     (let A = snd p1 - snd p2;
          B = fst p2 - fst p1;
          C = fst p1 * snd p2 - fst p2 * snd p1
      in (A, B, - C))"

text \<open>The result \<open>False\<close> of \<open>intersection\<close> is \<open>None\<close>; a pair, which is always true, is \<open>Some\<close>.\<close>

definition intersection :: "real \<times> real \<times> real \<Rightarrow> real \<times> real \<times> real \<Rightarrow> py_error + point option" where
  "intersection L1 L2 =
     (let D  = fst L1 * fst (snd L2) - fst (snd L1) * fst L2;
          Dx = snd (snd L1) * fst (snd L2) - fst (snd L1) * snd (snd L2);
          Dy = fst L1 * snd (snd L2) - snd (snd L1) * fst L2
      in if D \<noteq> 0
         then ebind (py_div Dx D) (\<lambda>x. ebind (py_div Dy D) (\<lambda>y. Inr (Some (x, y))))
         else Inr None)"

definition dot_product :: "point \<Rightarrow> point \<Rightarrow> real" where
  "dot_product p1 p2 = fst p1 * fst p2 + snd p1 * snd p2"

definition sub :: "point \<Rightarrow> point \<Rightarrow> point" where
  "sub p q = (fst p - fst q, snd p - snd q)"

definition line_line_intersection :: "point \<Rightarrow> point \<Rightarrow> point \<Rightarrow> point \<Rightarrow> py_error + real" where
  "line_line_intersection start_line end_line coords_sensor coords_far =
     (let L1 = line start_line end_line;
          L2 = line coords_sensor coords_far
      in ebind (intersection L1 L2) (\<lambda>coords_inter.
           case coords_inter of
             Some xy \<Rightarrow>
               (let dot1 = dot_product (sub xy coords_sensor) (sub xy coords_far);
                    dot2 = dot_product (sub xy start_line) (sub xy end_line)
                in if dot1 \<ge> 0 \<or> dot2 \<ge> 0 then Inr (- 1)
                   else line_length xy coords_sensor)
           | None \<Rightarrow> Inr (- 1)))"

definition circle_line_intersection :: "point \<Rightarrow> real \<Rightarrow> point \<Rightarrow> point \<Rightarrow> py_error + real" where
  "circle_line_intersection coords_obstacle r coords_sensor coords_far =
     (let x1c = fst coords_sensor - fst coords_obstacle;
          y1c = snd coords_sensor - snd coords_obstacle;
          x2c = fst coords_far - fst coords_obstacle;
          y2c = snd coords_far - snd coords_obstacle;
          dx = x2c - x1c;
          dy = y2c - y1c
      in ebind (py_sqrt (dx * dx + dy * dy)) (\<lambda>dr.
         let det = x1c * y2c - x2c * y1c;
             sgn = (if dy < 0 then - 1 else 1);
             lam = r * r * dr * dr - det * det
         in ebind
              (if lam > 0
               then ebind (py_sqrt lam) (\<lambda>s.
                    ebind (py_div (det * dy + sgn * dx * s) (dr * dr)) (\<lambda>ix1.
                    ebind (py_div (- det * dx + \<bar>dy\<bar> * s) (dr * dr)) (\<lambda>iy1.
                    ebind (py_div (det * dy - sgn * dx * s) (dr * dr)) (\<lambda>ix2.
                    ebind (py_div (- det * dx - \<bar>dy\<bar> * s) (dr * dr)) (\<lambda>iy2.
                    let coords_inter1 = (ix1 + fst coords_obstacle, iy1 + snd coords_obstacle);
                        coords_inter2 = (ix2 + fst coords_obstacle, iy2 + snd coords_obstacle)
                    in ebind (line_length coords_inter1 coords_sensor) (\<lambda>dist1.
                       ebind (line_length coords_inter2 coords_sensor) (\<lambda>dist2.
                         if dist1 < dist2
                         then Inr (dist1, sub coords_inter1 coords_sensor)
                         else Inr (dist2, sub coords_inter2 coords_sensor))))))))
               else Inr (- 1, (0, 0)))
              (\<lambda>(dist, v_hit).
                 let v_face = sub coords_far coords_sensor;
                     dot = fst v_face * fst v_hit + snd v_face * snd v_hit
                 in if dist > 0 \<and> dot > 0 then Inr dist else Inr (- 1))))"

subsection \<open>The ToF ring\<close>

fun facing_loop :: "real \<Rightarrow> real list \<Rightarrow> nat \<Rightarrow> point list \<Rightarrow> py_error + point list" where
  "facing_loop th [] i vf = Inr vf"
| "facing_loop th (phi # phis) i vf =
     (let cos_theta = cos (th + phi);
          sin_theta = sin (th + phi)
      in ebind (list_set vf i (cos_theta * 1.0 - sin_theta * 0.0, sin_theta * 1.0 + cos_theta * 0.0))
           (\<lambda>vf'. facing_loop th phis (i + 1) vf'))"

definition get_facing_tof :: "tof_class \<Rightarrow> robot \<Rightarrow> py_error + tof_class" where
  "get_facing_tof cls self =
     ebind (facing_loop (theta self) (phi_tof cls) 0 (v_face cls)) (\<lambda>vf. Inr (cls\<lparr>v_face := vf\<rparr>))"

text \<open>
  The loops of \<open>get_pos_tof\<close> and \<open>get_far_tof\<close> over \<open>range(0, len(_phi_tof))\<close>; \<open>ext\<close> is
  what is added to the mount offset (nothing, or the sensor range).
\<close>

fun reach_loop :: "point \<Rightarrow> point list \<Rightarrow> real list \<Rightarrow> real \<Rightarrow> nat list \<Rightarrow> point list \<Rightarrow> py_error + point list" where
  "reach_loop c vf tt ext [] out = Inr out"
| "reach_loop c vf tt ext (i # is) out =
     ebind (list_get vf i) (\<lambda>f.
     ebind (list_get tt i) (\<lambda>t.
     ebind (list_set out i (fst c + fst f * (t + ext), snd c + snd f * (t + ext))) (\<lambda>out'.
       reach_loop c vf tt ext is out')))"

definition get_pos_tof :: "tof_class \<Rightarrow> robot \<Rightarrow> py_error + tof_class" where
  "get_pos_tof cls self =
     ebind (get_facing_tof cls self) (\<lambda>cls1.
     ebind (reach_loop (coords self) (v_face cls1) (t_tof cls1) 0
              [0 ..< length (phi_tof cls1)] (pos_tof cls1)) (\<lambda>ps.
       Inr (cls1\<lparr>pos_tof := ps\<rparr>)))"

definition get_far_tof :: "tof_class \<Rightarrow> robot \<Rightarrow> py_error + tof_class" where
  "get_far_tof cls self =
     ebind (get_facing_tof cls self) (\<lambda>cls1.
     ebind (reach_loop (coords self) (v_face cls1) (t_tof cls1) rng_tof
              [0 ..< length (phi_tof cls1)] (far_tof cls1)) (\<lambda>fs.
       Inr (cls1\<lparr>far_tof := fs\<rparr>)))"

text \<open>The buffer is filled with the sensor range when its length is not the sensor count.\<close>

definition seed_distances :: "tof_class \<Rightarrow> real list \<Rightarrow> real list" where
  "seed_distances cls dist_to_obstacles =
     (if length dist_to_obstacles \<noteq> length (phi_tof cls)
      then dist_to_obstacles @ replicate (length (phi_tof cls)) rng_tof
      else dist_to_obstacles)"

fun line_obstacle_loop :: "point \<Rightarrow> point \<Rightarrow> tof_class \<Rightarrow> nat list \<Rightarrow> real list \<Rightarrow> py_error + real list" where
  "line_obstacle_loop start_line end_line cls [] ds = Inr ds"
| "line_obstacle_loop start_line end_line cls (i # is) ds =
     ebind (list_get (pos_tof cls) i) (\<lambda>p.
     ebind (list_get (far_tof cls) i) (\<lambda>f.
     ebind (line_line_intersection start_line end_line p f) (\<lambda>d.
     ebind (list_get (t_tof cls) i) (\<lambda>t.
       let dist = d + t
       in ebind (list_get ds i) (\<lambda>cur.
            if dist < cur \<and> dist > 0
            then ebind (list_set ds i dist) (\<lambda>ds'. line_obstacle_loop start_line end_line cls is ds')
            else line_obstacle_loop start_line end_line cls is ds)))))"

definition get_distance_to_line_obstacle ::
    "tof_class \<Rightarrow> robot \<Rightarrow> point \<Rightarrow> point \<Rightarrow> real list \<Rightarrow> py_error + real list \<times> tof_class" where
  "get_distance_to_line_obstacle cls self start_line end_line dist_to_obstacles =
     (let ds = seed_distances cls dist_to_obstacles
      in ebind (get_pos_tof cls self) (\<lambda>cls1.
         ebind (get_far_tof cls1 self) (\<lambda>cls2.
         ebind (line_obstacle_loop start_line end_line cls2 [0 ..< length (phi_tof cls2)] ds) (\<lambda>ds'.
           Inr (ds', cls2)))))"

fun circular_obstacle_loop :: "point \<Rightarrow> real \<Rightarrow> tof_class \<Rightarrow> nat list \<Rightarrow> real list \<Rightarrow> py_error + real list" where
  "circular_obstacle_loop pos_obstacle r cls [] ds = Inr ds"
| "circular_obstacle_loop pos_obstacle r cls (i # is) ds =
     ebind (list_get (pos_tof cls) i) (\<lambda>p.
     ebind (list_get (far_tof cls) i) (\<lambda>f.
     ebind (circle_line_intersection pos_obstacle r p f) (\<lambda>dist.
     ebind (list_get ds i) (\<lambda>cur.
       if dist < cur \<and> dist > 0
       then ebind (list_set ds i dist) (\<lambda>ds'. circular_obstacle_loop pos_obstacle r cls is ds')
       else circular_obstacle_loop pos_obstacle r cls is ds))))"

definition get_distance_to_circular_obstacle ::
    "tof_class \<Rightarrow> robot \<Rightarrow> point \<Rightarrow> real \<Rightarrow> real list \<Rightarrow> py_error + real list \<times> tof_class" where
  "get_distance_to_circular_obstacle cls self pos_obstacle r dist_to_obstacles =
     (let ds = seed_distances cls dist_to_obstacles
      in ebind (get_pos_tof cls self) (\<lambda>cls1.
         ebind (get_far_tof cls1 self) (\<lambda>cls2.
         ebind (circular_obstacle_loop pos_obstacle r cls2 [0 ..< length (phi_tof cls2)] ds) (\<lambda>ds'.
           Inr (ds', cls2)))))"

subsection \<open>The raster scanner\<close>

text \<open>
  The loop of \<open>bresenham_line\<close> has no bound in the source, so it is a partial function:
  \<open>None\<close> stands for a loop that never leaves. \<open>step\<close> is 3 at the only call.
\<close>

partial_function (option) bresenham_loop ::
    "int \<Rightarrow> int \<Rightarrow> int \<Rightarrow> int \<Rightarrow> int \<Rightarrow> int \<Rightarrow> nat \<Rightarrow> int \<Rightarrow> int \<Rightarrow> int \<Rightarrow> nat \<Rightarrow> (int \<times> int) list
      \<Rightarrow> (int \<times> int) list option" where
  "bresenham_loop x1 y1 dx dy sx sy step x0 y0 err count points =
     (let points1 = (if count mod step = 0 then points @ [(x0, y0)] else points);
          count1 = count + 1
      in if x0 = x1 \<and> y0 = y1 then Some points1
         else
           let e2 = err * 2;
               err1 = (if e2 > - dy then err - dy else err);
               x0' = (if e2 > - dy then x0 + sx else x0);
               err2 = (if e2 < dx then err1 + dx else err1);
               y0' = (if e2 < dx then y0 + sy else y0)
           in bresenham_loop x1 y1 dx dy sx sy step x0' y0' err2 count1 points1)"

definition bresenham_line :: "int \<Rightarrow> int \<Rightarrow> int \<Rightarrow> int \<Rightarrow> nat \<Rightarrow> (int \<times> int) list option" where
  "bresenham_line x0 y0 x1 y1 step =
     (let dx = \<bar>x1 - x0\<bar>;
          dy = \<bar>y1 - y0\<bar>;
          sx = (if x0 < x1 then 1 else - 1);
          sy = (if y0 < y1 then 1 else - 1);
          err = dx - dy
      in bresenham_loop x1 y1 dx dy sx sy step x0 y0 err 0 [])"

text \<open>
  The map is a pygame surface: its size and one colour per cell. Only the red, green and
  blue components are compared. \<open>get_at\<close> is called inside the bounds test only.
\<close>

type_synonym colour = "nat \<times> nat \<times> nat"

record surface =
  get_width :: int
  get_height :: int
  get_at :: "int \<times> int \<Rightarrow> colour"

definition set_at :: "surface \<Rightarrow> int \<times> int \<Rightarrow> colour \<Rightarrow> surface" where
  "set_at m p c = m\<lparr>get_at := (get_at m)(p := c)\<rparr>"

text \<open>The \<open>for\<close> loop of \<open>calculate_lidar_angle\<close> over the points of the beam.\<close>

fun beam_loop :: "real \<Rightarrow> real \<Rightarrow> real \<Rightarrow> (int \<times> int) list \<Rightarrow> real \<Rightarrow> surface \<Rightarrow> real \<times> surface" where
  "beam_loop r_x r_y meter_to_pixel [] distance m = (distance, m)"
| "beam_loop r_x r_y meter_to_pixel ((x, y) # ps) distance m =
     (if 0 < x \<and> x < get_width m \<and> 0 < y \<and> y < get_height m
      then
        let color = get_at m (x, y)
        in if color = (0, 0, 0) \<or> color = (255, 0, 0)
           then
             let obstacle = sqrt ((real_of_int x - r_x) ^ 2 + (real_of_int y - r_y) ^ 2)
             in (obstacle / meter_to_pixel, m)
           else beam_loop r_x r_y meter_to_pixel ps distance (set_at m (x, y) (0, 208, 255))
      else beam_loop r_x r_y meter_to_pixel ps distance m)"

definition calculate_lidar_angle ::
    "nat \<Rightarrow> real \<Rightarrow> real \<times> real \<times> real \<Rightarrow> surface \<Rightarrow> real \<Rightarrow> (nat \<times> real \<times> surface) option" where
  "calculate_lidar_angle index angle robot_pose m meter_to_pixel =
     (let r_x = fst robot_pose;
          r_y = fst (snd robot_pose);
          min_range = obstacle_radius;
          x2 = py_int (r_x + laser_range * meter_to_pixel * cos angle);
          y2 = py_int (r_y + laser_range * meter_to_pixel * sin angle);
          x1 = py_int (min_range * meter_to_pixel * cos angle + r_x);
          y1 = py_int (min_range * meter_to_pixel * sin angle + r_y)
      in case bresenham_line x1 y1 x2 y2 3 of
           None \<Rightarrow> None
         | Some points_on_line \<Rightarrow>
             (let (distance, m') = beam_loop r_x r_y meter_to_pixel points_on_line laser_range m
              in Some (index, distance, m')))"

text \<open>\<open>np.arange(start, stop, step)\<close>: \<open>ceil((stop - start) / step)\<close> values from \<open>start\<close>.\<close>

definition arange :: "real \<Rightarrow> real \<Rightarrow> real \<Rightarrow> real list" where
  "arange start stop step =
     map (\<lambda>i. start + real i * step) [0 ..< nat \<lceil>(stop - start) / step\<rceil>]"

text \<open>
  The executor runs one task per beam. The tasks are taken in the order of submission,
  each on the map the one before left; \<open>distances[index] = distance\<close> collects them.
\<close>

fun lidar_tasks ::
    "real \<times> real \<times> real \<Rightarrow> (nat \<times> real) list \<Rightarrow> real list \<Rightarrow> surface \<Rightarrow> (real list \<times> surface) option" where
  "lidar_tasks robot_pose [] distances m = Some (distances, m)"
| "lidar_tasks robot_pose ((i, angle) # rest) distances m =
     (case calculate_lidar_angle i angle robot_pose m 100 of
        None \<Rightarrow> None
      | Some (index, distance, m') \<Rightarrow>
          lidar_tasks robot_pose rest (distances[index := distance]) m')"

definition LiDAR_sensing :: "robot \<Rightarrow> real \<times> real \<times> real \<Rightarrow> surface \<Rightarrow> (real list \<times> surface) option" where
  "LiDAR_sensing self robot_pose m =
     (let r_heading = snd (snd robot_pose);
          start_angle = - r_heading + angle_min;
          end_angle = - r_heading + angle_max self;
          angles = arange end_angle start_angle (- angle_inc);
          num_angles = length angles;
          distances = replicate num_angles 0
      in lidar_tasks robot_pose (enumerate 0 angles) distances m)"

subsection \<open>The segment intersection on doubles\<close>

text \<open>
  A Python float is an IEEE 754 double. \<open>fl\<close> rounds a real number to the nearest double,
  ties to the even significand: the value is scaled so that its integer part has 53 bits,
  rounded to an integer by \<open>rne\<close> and scaled back. The exponent is not bounded, so \<open>fl\<close>
  is the rounding of the machine on the normal range (no overflow, no subnormal numbers).
  Each arithmetic operation of \<open>line_line_intersection\<close> and of the functions it calls is
  the exact operation followed by \<open>fl\<close>; negation and comparison are exact.
\<close>

definition rne :: "real \<Rightarrow> int" where
  "rne q = (let n = \<lfloor>q\<rfloor>; r = q - of_int n
            in if r < 1 / 2 then n else if r > 1 / 2 then n + 1 else if even n then n else n + 1)"

definition fl :: "real \<Rightarrow> real" where
  "fl x = (if x = 0 then 0
           else of_int (rne (x / 2 powr of_int (\<lfloor>log 2 \<bar>x\<bar>\<rfloor> - 52)))
                  * 2 powr of_int (\<lfloor>log 2 \<bar>x\<bar>\<rfloor> - 52))"

definition py_div_f64 :: "real \<Rightarrow> real \<Rightarrow> py_error + real" where
  "py_div_f64 a b = (if b = 0 then Inl ZeroDivisionError else Inr (fl (a / b)))"

definition py_sqrt_f64 :: "real \<Rightarrow> py_error + real" where
  "py_sqrt_f64 a = (if a < 0 then Inl ValueError else Inr (fl (sqrt a)))"

definition line_length_f64 :: "point \<Rightarrow> point \<Rightarrow> py_error + real" where
  "line_length_f64 p1 p2 =
     py_sqrt_f64 (fl (fl (fl (fst p1 - fst p2) * fl (fst p1 - fst p2))
                    + fl (fl (snd p1 - snd p2) * fl (snd p1 - snd p2))))"

definition line_f64 :: "point \<Rightarrow> point \<Rightarrow> real \<times> real \<times> real" where
  "line_f64 p1 p2 =
     (let A = fl (snd p1 - snd p2);
          B = fl (fst p2 - fst p1);
          C = fl (fl (fst p1 * snd p2) - fl (fst p2 * snd p1))
      in (A, B, - C))"

definition intersection_f64 :: "real \<times> real \<times> real \<Rightarrow> real \<times> real \<times> real \<Rightarrow> py_error + point option" where
  "intersection_f64 L1 L2 =
     (let D  = fl (fl (fst L1 * fst (snd L2)) - fl (fst (snd L1) * fst L2));
          Dx = fl (fl (snd (snd L1) * fst (snd L2)) - fl (fst (snd L1) * snd (snd L2)));
          Dy = fl (fl (fst L1 * snd (snd L2)) - fl (snd (snd L1) * fst L2))
      in if D \<noteq> 0
         then ebind (py_div_f64 Dx D) (\<lambda>x. ebind (py_div_f64 Dy D) (\<lambda>y. Inr (Some (x, y))))
         else Inr None)"

definition dot_product_f64 :: "point \<Rightarrow> point \<Rightarrow> real" where
  "dot_product_f64 p1 p2 = fl (fl (fst p1 * fst p2) + fl (snd p1 * snd p2))"

definition sub_f64 :: "point \<Rightarrow> point \<Rightarrow> point" where
  "sub_f64 p q = (fl (fst p - fst q), fl (snd p - snd q))"

definition line_line_intersection_f64 :: "point \<Rightarrow> point \<Rightarrow> point \<Rightarrow> point \<Rightarrow> py_error + real" where
  "line_line_intersection_f64 start_line end_line coords_sensor coords_far =
     (let L1 = line_f64 start_line end_line;
          L2 = line_f64 coords_sensor coords_far
      in ebind (intersection_f64 L1 L2) (\<lambda>coords_inter.
           case coords_inter of
             Some xy \<Rightarrow>
               (let dot1 = dot_product_f64 (sub_f64 xy coords_sensor) (sub_f64 xy coords_far);
                    dot2 = dot_product_f64 (sub_f64 xy start_line) (sub_f64 xy end_line)
                in if dot1 \<ge> 0 \<or> dot2 \<ge> 0 then Inr (- 1)
                   else line_length_f64 xy coords_sensor)
           | None \<Rightarrow> Inr (- 1)))"

text \<open>The doubles that the literals \<open>0.6\<close> and \<open>0.9\<close> denote.\<close>

definition d06 :: real where "d06 = 5404319552844595 / 9007199254740992"
definition d09 :: real where "d09 = 8106479329266893 / 9007199254740992"

subsection \<open>Concrete states\<close>

text \<open>
  A robot at the origin, driving forward at 1 m/s, whose clock and last command stand at
  one second.
\<close>

definition parked :: robot where
  "parked = \<lparr>initial_coords = (2, 2), initial_theta = 0, reset = False,
     coords = (0, 0), theta = 0, v = (1, 0), omega = 0,
     angle_max = 3 * pi / 4, timestamp = 1000000000, last_command = 1000000000\<rparr>"

text \<open>
  A ring of one sensor facing 0 rad with the mount offset 0.2 m, and a robot standing at
  the origin with heading 0.
\<close>

definition single_tof :: tof_class where
  "single_tof = \<lparr>phi_tof = [0], t_tof = [0.2], v_face = [(0, 0)], pos_tof = [(0, 0)], far_tof = [(0, 0)]\<rparr>"

definition at_origin :: robot where
  "at_origin = \<lparr>initial_coords = (0, 0), initial_theta = 0, reset = False,
     coords = (0, 0), theta = 0, v = (0, 0), omega = 0,
     angle_max = 3 * pi / 4, timestamp = 0, last_command = 0\<rparr>"

subsection \<open>Predicates of the proofs\<close>

text \<open>
  The invariant of the loop of \<open>bresenham_line\<close>: the steps still to go in each direction
  are within bounds and determine the error term.
\<close>

definition bres_inv :: "int \<Rightarrow> int \<Rightarrow> int \<Rightarrow> int \<Rightarrow> int \<Rightarrow> int \<Rightarrow> int \<Rightarrow> int \<Rightarrow> int \<Rightarrow> bool" where
  "bres_inv x1 y1 dx dy sx sy x0 y0 err \<longleftrightarrow>
     (sx = 1 \<or> sx = - 1) \<and> (sy = 1 \<or> sy = - 1)
     \<and> 0 \<le> sx * (x1 - x0) \<and> sx * (x1 - x0) \<le> dx
     \<and> 0 \<le> sy * (y1 - y0) \<and> sy * (y1 - y0) \<le> dy
     \<and> err = dx - dy + sx * (x1 - x0) * dy - sy * (y1 - y0) * dx"

text \<open>\<open>on_line a b p\<close>: the point \<open>p\<close> lies on the line through \<open>a\<close> and \<open>b\<close>.\<close>

definition on_line :: "point \<Rightarrow> point \<Rightarrow> point \<Rightarrow> bool" where
  "on_line a b p \<longleftrightarrow> (fst b - fst a) * (snd p - snd a) = (snd b - snd a) * (fst p - fst a)"

text \<open>
  \<open>tinted m m'\<close>: the map \<open>m'\<close> is \<open>m\<close> with the tint written on some cells that were no
  obstacle. \<open>same_obstacles m m'\<close>: the two maps have the same size and the same obstacle
  cells.
\<close>

definition tinted :: "surface \<Rightarrow> surface \<Rightarrow> bool" where
  "tinted m m' \<longleftrightarrow>
     get_width m' = get_width m \<and> get_height m' = get_height m
     \<and> (\<forall>p. get_at m' p = get_at m p
            \<or> (get_at m p \<noteq> (0, 0, 0) \<and> get_at m p \<noteq> (255, 0, 0) \<and> get_at m' p = (0, 208, 255)))"

definition same_obstacles :: "surface \<Rightarrow> surface \<Rightarrow> bool" where
  "same_obstacles m m' \<longleftrightarrow>
     get_width m' = get_width m \<and> get_height m' = get_height m
     \<and> (\<forall>p. (get_at m' p = (0, 0, 0) \<or> get_at m' p = (255, 0, 0))
            = (get_at m p = (0, 0, 0) \<or> get_at m p = (255, 0, 0)))"

section \<open>Drive kinematics: the matrix and its pseudo-inverse\<close>

lemma T_rows:
  "T = [[20, - 20, - 5], [- 20, - 20, - 5], [20, 20, - 5], [- 20, 20, - 5]]"
  by (simp add: T_def rinv_def lxly_def wheel_radius_def wheel_base_def track_def)

lemma transpose_4x3:
  "transpose [[a1, a2, a3], [b1, b2, b3], [c1, c2, c3], [d1, d2, d3 :: real]] =
     [[a1, b1, c1, d1], [a2, b2, c2, d2], [a3, b3, c3, d3]]"
  by (simp add: transpose.simps)

lemma transpose_3x4:
  "transpose [[a1, a2, a3, a4], [b1, b2, b3, b4], [c1, c2, c3, c4 :: real]] =
     [[a1, b1, c1], [a2, b2, c2], [a3, b3, c3], [a4, b4, c4]]"
  by (simp add: transpose.simps)

lemma transpose_3x3:
  "transpose [[a1, a2, a3], [b1, b2, b3], [c1, c2, c3 :: real]] =
     [[a1, b1, c1], [a2, b2, c2], [a3, b3, c3]]"
  by (simp add: transpose.simps)

lemma transpose_4x4:
  "transpose [[a1, a2, a3, a4], [b1, b2, b3, b4], [c1, c2, c3, c4], [d1, d2, d3, d4 :: real]] =
     [[a1, b1, c1, d1], [a2, b2, c2, d2], [a3, b3, c3, d3], [a4, b4, c4, d4]]"
  by (simp add: transpose.simps)

lemma Tinv_rows:
  "Tinv = [[1 / 80, - 1 / 80, 1 / 80, - 1 / 80],
           [- 1 / 80, - 1 / 80, 1 / 80, 1 / 80],
           [- 1 / 20, - 1 / 20, - 1 / 20, - 1 / 20]]"
  by (simp add: Tinv_def pinv_def T_rows transpose_4x3 transpose_3x3 mat_mul_def dot_rows_def)

text \<open>
  The four equations of Penrose, which one matrix at most satisfies: \<open>Tinv\<close> is the
  Moore-Penrose pseudo-inverse of \<open>T\<close>.
\<close>

lemma Tinv_penrose:
  "mat_mul T (mat_mul Tinv T) = T"
  "mat_mul Tinv (mat_mul T Tinv) = Tinv"
  "transpose (mat_mul T Tinv) = mat_mul T Tinv"
  "transpose (mat_mul Tinv T) = mat_mul Tinv T"
  by (simp_all add: T_rows Tinv_rows mat_mul_def dot_rows_def
      transpose_4x3 transpose_3x4 transpose_3x3 transpose_4x4)

lemma mat_dot_T: "mat_dot T [vx, vy, om] =
    [20 * vx - 20 * vy - 5 * om, - 20 * vx - 20 * vy - 5 * om,
     20 * vx + 20 * vy - 5 * om, - 20 * vx + 20 * vy - 5 * om]"
  by (simp add: T_rows mat_dot_def dot_rows_def)

lemma mat_dot_Tinv: "mat_dot Tinv [w0, w1, w2, w3] =
    [(w0 - w1 + w2 - w3) / 80, (- w0 - w1 + w2 + w3) / 80, - (w0 + w1 + w2 + w3) / 20]"
  by (simp add: Tinv_rows mat_dot_def dot_rows_def field_simps)

text \<open>
  Claim C1. The wheel rates \<open>T (vx, vy, omega)\<close> of any body velocity, given to
  \<open>set_wheel_speed\<close>, store exactly \<open>(vx, vy)\<close> and \<open>omega\<close> again: the pseudo-inverse
  undoes the forward matrix, in real arithmetic.
\<close>

theorem wheel_speed_roundtrip:
  "set_wheel_speed self (mat_dot T [vx, vy, om]) = Inr (set_velocity self vx vy om)"
  unfolding mat_dot_T set_wheel_speed_def
  by (simp add: list_get_def ebind_def mat_dot_Tinv)

text \<open>
  Claim C4, as the code has it. With \<open>r\<close> the wheel radius and \<open>lx + ly\<close> half the wheel
  base plus half the track, the rows are \<open>[1/r, -1/r, -(lx+ly)/r]\<close> (front left),
  \<open>[-1/r, -1/r, -(lx+ly)/r]\<close> (front right), \<open>[1/r, 1/r, -(lx+ly)/r]\<close> (rear left) and
  \<open>[-1/r, 1/r, -(lx+ly)/r]\<close> (rear right). In the \<open>vy\<close> column the two front wheels share
  a sign, opposite to that of the two rear wheels; in the \<open>vx\<close> column the two left wheels
  share a sign, opposite to that of the two right wheels; the four entries of the \<open>omega\<close>
  column are the same negative number.
\<close>

theorem T_sign_pattern:
  "T = [[  1 / wheel_radius, - 1 / wheel_radius, - (wheel_base / 2 + track / 2) / wheel_radius],
        [- 1 / wheel_radius, - 1 / wheel_radius, - (wheel_base / 2 + track / 2) / wheel_radius],
        [  1 / wheel_radius,   1 / wheel_radius, - (wheel_base / 2 + track / 2) / wheel_radius],
        [- 1 / wheel_radius,   1 / wheel_radius, - (wheel_base / 2 + track / 2) / wheel_radius]]
   \<and> sgn (T ! 0 ! 1) = sgn (T ! 1 ! 1) \<and> sgn (T ! 2 ! 1) = sgn (T ! 3 ! 1)
   \<and> sgn (T ! 0 ! 1) = - sgn (T ! 2 ! 1)
   \<and> sgn (T ! 0 ! 0) = sgn (T ! 2 ! 0) \<and> sgn (T ! 1 ! 0) = sgn (T ! 3 ! 0)
   \<and> sgn (T ! 0 ! 0) = - sgn (T ! 1 ! 0)
   \<and> - (wheel_base / 2 + track / 2) / wheel_radius < 0"
  by (simp add: T_def rinv_def lxly_def wheel_radius_def wheel_base_def track_def)

text \<open>
  Claim C4 as written fails twice. The front-right row is \<open>[-1/r, -1/r, ...]\<close>, not of the
  shape \<open>[\<plusminus>1/r, \<mp>1/r, ...]\<close>; and in the \<open>vy\<close> column the front-left entry and the
  rear-right entry have different signs, so they are not a pair opposed to the other two.
\<close>

theorem T_sign_pattern_counterexample:
  "\<not> (T ! 1 ! 0 = - (T ! 1 ! 1))
   \<and> \<not> (sgn (T ! 0 ! 1) = sgn (T ! 3 ! 1) \<and> sgn (T ! 1 ! 1) = sgn (T ! 2 ! 1)
        \<and> sgn (T ! 0 ! 1) = - sgn (T ! 1 ! 1))"
  by (simp add: T_rows)

section \<open>Pose integration\<close>

text \<open>
  Claim C3, as the code has it. A tick whose elapsed time is exactly zero leaves the
  position and the heading as they were, whatever the stored velocity and angular rate,
  unless a reset is pending: then the tick ends at the initial pose. The code has no test
  of the sign of the elapsed time.
\<close>

theorem trigger_zero_dt:
  assumes "now = timestamp self"
  shows "coords (trigger_step now self) = (if reset self then initial_coords self else coords self)
       \<and> theta (trigger_step now self) = (if reset self then initial_theta self else theta self)"
  using assms by (simp add: trigger_step_def Let_def to_sec_def)

theorem trigger_zero_dt_witness:
  "timestamp parked = 1000000000
   \<and> coords (trigger_step 1000000000 parked) = (0, 0) \<and> theta (trigger_step 1000000000 parked) = 0"
  using trigger_zero_dt [of 1000000000 parked] by (simp add: parked_def)

text \<open>
  Claim C3 as written fails. With the clock one second back (\<open>dt = -1\<close>), the robot
  \<open>parked\<close> moves from \<open>(0, 0)\<close> to \<open>(-1, 0)\<close>; and with \<open>dt = 0\<close> and a reset pending its
  position changes to the initial one.
\<close>

theorem trigger_negative_dt_counterexample:
  "to_sec (0 - timestamp parked) < 0 \<and> coords (trigger_step 0 parked) = (- 1, 0)
   \<and> coords (trigger_step 0 parked) \<noteq> coords parked
   \<and> to_sec (1000000000 - timestamp (parked\<lparr>reset := True\<rparr>)) = 0
   \<and> coords (trigger_step 1000000000 (parked\<lparr>reset := True\<rparr>)) \<noteq> coords (parked\<lparr>reset := True\<rparr>)"
  by (simp add: trigger_step_def Let_def to_sec_def parked_def)

text \<open>
  Claim C5, as the code has it. When more than 0.5 s have passed since the last command,
  a tick sets the stored velocity and angular rate to zero before it integrates, so the
  position and the heading stay as they were whatever was stored, unless a reset is
  pending: then the tick ends at the initial pose.
\<close>

theorem watchdog_stops:
  assumes "to_sec (now - last_command self) > 0.5"
  shows "v (trigger_step now self) = (0, 0) \<and> omega (trigger_step now self) = 0
       \<and> coords (trigger_step now self) = (if reset self then initial_coords self else coords self)
       \<and> theta (trigger_step now self) = (if reset self then initial_theta self else theta self)"
  using assms by (simp add: trigger_step_def Let_def)

theorem watchdog_stops_witness:
  "to_sec (1600000000 - last_command parked) > 0.5
   \<and> v (trigger_step 1600000000 parked) = (0, 0) \<and> omega (trigger_step 1600000000 parked) = 0
   \<and> coords (trigger_step 1600000000 parked) = coords parked
   \<and> theta (trigger_step 1600000000 parked) = theta parked"
proof -
  have h: "to_sec (1600000000 - last_command parked) > 0.5"
    by (simp add: to_sec_def parked_def)
  show ?thesis using h watchdog_stops [OF h] by (simp add: parked_def)
qed

text \<open>
  Claim C5 as written fails for a state with a reset pending: 0.6 s after the last command
  the tick moves the robot from \<open>(0, 0)\<close> to its initial position \<open>(2, 2)\<close>.
\<close>

theorem watchdog_reset_counterexample:
  "to_sec (1600000000 - last_command (parked\<lparr>reset := True\<rparr>)) > 0.5
   \<and> coords (trigger_step 1600000000 (parked\<lparr>reset := True\<rparr>)) \<noteq> coords (parked\<lparr>reset := True\<rparr>)"
  by (simp add: trigger_step_def Let_def to_sec_def parked_def)

section \<open>Geometry primitives\<close>

lemma ebind_Inr [simp]: "ebind (Inr x) f = f x"
  by (simp add: ebind_def)

lemma ebind_Inl [simp]: "ebind (Inl e) f = Inl e"
  by (simp add: ebind_def)

lemma line_length_total:
  "line_length p q = Inr (sqrt ((fst p - fst q) * (fst p - fst q) + (snd p - snd q) * (snd p - snd q)))"
  by (simp add: line_length_def py_sqrt_def not_less)

lemma intersection_total:
  "intersection (A1, B1, C1) (A2, B2, C2) =
     Inr (if A1 * B2 - B1 * A2 \<noteq> 0
          then Some ((C1 * B2 - B1 * C2) / (A1 * B2 - B1 * A2), (A1 * C2 - C1 * A2) / (A1 * B2 - B1 * A2))
          else None)"
  by (simp add: intersection_def py_div_def Let_def)

lemma line_line_cases:
  "line_line_intersection a b s f =
     (case intersection (line a b) (line s f) of
        Inr (Some xy) \<Rightarrow>
          if dot_product (sub xy s) (sub xy f) \<ge> 0 \<or> dot_product (sub xy a) (sub xy b) \<ge> 0
          then Inr (- 1)
          else Inr (sqrt ((fst xy - fst s) * (fst xy - fst s) + (snd xy - snd s) * (snd xy - snd s)))
      | Inr None \<Rightarrow> Inr (- 1)
      | Inl e \<Rightarrow> Inl e)"
  by (simp add: line_line_intersection_def Let_def line_length_total ebind_def
      split: sum.splits option.splits)

lemma line_eq: "line p q = (snd p - snd q, fst q - fst p, - (fst p * snd q - fst q * snd p))"
  by (simp add: line_def Let_def)











text \<open>
  The point \<open>intersection\<close> returns is the point where the two lines meet: it lies on both,
  and a point on both lines that are not parallel is the one returned.
\<close>

lemma on_line_ends: "on_line a b a" "on_line a b b"
  by (simp_all add: on_line_def)

lemma on_line_eq:
  "on_line a b p \<longleftrightarrow>
     (snd a - snd b) * fst p + (fst b - fst a) * snd p = - (fst a * snd b - fst b * snd a)"
  by (auto simp: on_line_def algebra_simps)

lemma intersection_unique:
  assumes D: "(snd a - snd b) * (fst f - fst s) - (fst b - fst a) * (snd s - snd f) \<noteq> 0"
    and p1: "on_line a b p" and p2: "on_line s f p"
  shows "intersection (line a b) (line s f) = Inr (Some p)"
proof -
  define A1 where "A1 = snd a - snd b"
  define B1 where "B1 = fst b - fst a"
  define C1 where "C1 = - (fst a * snd b - fst b * snd a)"
  define A2 where "A2 = snd s - snd f"
  define B2 where "B2 = fst f - fst s"
  define C2 where "C2 = - (fst s * snd f - fst f * snd s)"
  define D' where "D' = A1 * B2 - B1 * A2"
  have e1: "A1 * fst p + B1 * snd p = C1"
    using p1 by (simp add: on_line_eq A1_def B1_def C1_def)
  have e2: "A2 * fst p + B2 * snd p = C2"
    using p2 by (simp add: on_line_eq A2_def B2_def C2_def)
  have nz: "D' \<noteq> 0" using D by (simp add: D'_def A1_def B1_def A2_def B2_def)
  have "C1 * B2 - B1 * C2 = fst p * D'"
    unfolding e1 [symmetric] e2 [symmetric] D'_def by (simp add: algebra_simps)
  then have x: "(C1 * B2 - B1 * C2) / D' = fst p" using nz by simp
  have "A1 * C2 - C1 * A2 = snd p * D'"
    unfolding e1 [symmetric] e2 [symmetric] D'_def by (simp add: algebra_simps)
  then have y: "(A1 * C2 - C1 * A2) / D' = snd p" using nz by simp
  have "intersection (line a b) (line s f) = intersection (A1, B1, C1) (A2, B2, C2)"
    by (simp add: line_eq A1_def B1_def C1_def A2_def B2_def C2_def)
  also have "\<dots> = Inr (Some p)"
    using nz x y by (simp add: intersection_total D'_def)
  finally show ?thesis .
qed

lemma intersection_on_lines:
  assumes "intersection (line a b) (line s f) = Inr (Some q)"
  shows "on_line a b q \<and> on_line s f q"
proof -
  define A1 where "A1 = snd a - snd b"
  define B1 where "B1 = fst b - fst a"
  define C1 where "C1 = - (fst a * snd b - fst b * snd a)"
  define A2 where "A2 = snd s - snd f"
  define B2 where "B2 = fst f - fst s"
  define C2 where "C2 = - (fst s * snd f - fst f * snd s)"
  define D' where "D' = A1 * B2 - B1 * A2"
  have "intersection (line a b) (line s f) = intersection (A1, B1, C1) (A2, B2, C2)"
    by (simp add: line_eq A1_def B1_def C1_def A2_def B2_def C2_def)
  with assms have nz: "D' \<noteq> 0"
    and q: "q = ((C1 * B2 - B1 * C2) / D', (A1 * C2 - C1 * A2) / D')"
    by (auto simp: intersection_total D'_def split: if_splits)
  have n1: "A1 * (C1 * B2 - B1 * C2) + B1 * (A1 * C2 - C1 * A2) = C1 * D'"
    by (simp add: D'_def algebra_simps)
  have "A1 * ((C1 * B2 - B1 * C2) / D') + B1 * ((A1 * C2 - C1 * A2) / D')
      = (A1 * (C1 * B2 - B1 * C2) + B1 * (A1 * C2 - C1 * A2)) / D'"
    by (simp add: add_divide_distrib)
  also have "\<dots> = C1" unfolding n1 using nz by simp
  finally have e1: "A1 * fst q + B1 * snd q = C1" by (simp add: q)
  have n2: "A2 * (C1 * B2 - B1 * C2) + B2 * (A1 * C2 - C1 * A2) = C2 * D'"
    by (simp add: D'_def algebra_simps)
  have "A2 * ((C1 * B2 - B1 * C2) / D') + B2 * ((A1 * C2 - C1 * A2) / D')
      = (A2 * (C1 * B2 - B1 * C2) + B2 * (A1 * C2 - C1 * A2)) / D'"
    by (simp add: add_divide_distrib)
  also have "\<dots> = C2" unfolding n2 using nz by simp
  finally have e2: "A2 * fst q + B2 * snd q = C2" by (simp add: q)
  from e1 e2 show ?thesis
    by (simp add: on_line_eq A1_def B1_def C1_def A2_def B2_def C2_def)
qed

lemma graze_no_hit:
  assumes "on_line s f a \<or> on_line s f b \<or> on_line a b s \<or> on_line a b f"
  shows "line_line_intersection a b s f = Inr (- 1)"
proof (cases "(snd a - snd b) * (fst f - fst s) - (fst b - fst a) * (snd s - snd f) = 0")
  case True
  then show ?thesis
    by (simp add: line_line_cases line_eq intersection_total)
next
  case False
  from assms obtain p where p: "p = a \<or> p = b \<or> p = s \<or> p = f"
    and on: "on_line a b p" "on_line s f p"
    using on_line_ends by blast
  from intersection_unique [OF False on]
  have "intersection (line a b) (line s f) = Inr (Some p)" .
  with p show ?thesis
    by (auto simp: line_line_cases dot_product_def sub_def)
qed

subsection \<open>Rounding to doubles\<close>

lemma fl_zero [simp]: "fl 0 = 0"
  by (simp add: fl_def)

lemma fl_value:
  fixes j :: int
  assumes lo: "2 powr (of_int j + 52) \<le> \<bar>x\<bar>" and hi: "\<bar>x\<bar> < 2 powr (of_int j + 53)"
    and n: "rne (x / 2 powr of_int j) = n"
  shows "fl x = of_int n * 2 powr of_int j"
proof -
  have pos: "0 < \<bar>x\<bar>"
    using lo by (smt (verit) powr_gt_zero)
  have "\<lfloor>log 2 \<bar>x\<bar>\<rfloor> = j + 52"
    using lo hi pos by (subst floor_log_eq_powr_iff) (simp_all add: add.assoc)
  then have "\<lfloor>log 2 \<bar>x\<bar>\<rfloor> - 52 = j" by simp
  with pos n show ?thesis by (simp add: fl_def)
qed

lemma rne_nonneg: "0 \<le> q \<Longrightarrow> 0 \<le> rne q"
  by (auto simp: rne_def Let_def)

lemma fl_nonneg: "0 \<le> x \<Longrightarrow> 0 \<le> fl x"
  by (simp add: fl_def rne_nonneg)

text \<open>\<open>d06\<close> and \<open>d09\<close> are the doubles nearest to 0.6 and 0.9.\<close>

lemma d06_is_double: "fl (3 / 5) = d06"
  using fl_value [of "- 53" "3 / 5" 5404319552844595]
  by (simp add: rne_def powr_neg_numeral d06_def)

lemma d09_is_double: "fl (9 / 10) = d09"
  using fl_value [of "- 53" "9 / 10" 8106479329266893]
  by (simp add: rne_def powr_neg_numeral d09_def)

text \<open>
  The values \<open>fl\<close> takes while the function runs on the two inputs used below, each
  computed from the definition of \<open>fl\<close>.
\<close>

lemma fl_at_0: "fl (- (8106479329266893 / 9007199254740992)) = - (8106479329266893 / 9007199254740992)"
  using fl_value [of "- 53" "- (8106479329266893 / 9007199254740992)" "- 8106479329266893"]
  by (simp add: rne_def powr_neg_numeral)

lemma fl_at_1: "fl (- (3602879701896397 / 9007199254740992)) = - (3602879701896397 / 9007199254740992)"
  using fl_value [of "- 54" "- (3602879701896397 / 9007199254740992)" "- 7205759403792794"]
  by (simp add: rne_def powr_neg_numeral)

lemma fl_at_2: "fl (8106479329266893 / 9007199254740992) = 8106479329266893 / 9007199254740992"
  using fl_value [of "- 53" "8106479329266893 / 9007199254740992" "8106479329266893"]
  by (simp add: rne_def powr_neg_numeral)

lemma fl_at_3: "fl (5404319552844595 / 9007199254740992) = 5404319552844595 / 9007199254740992"
  using fl_value [of "- 53" "5404319552844595 / 9007199254740992" "5404319552844595"]
  by (simp add: rne_def powr_neg_numeral)

lemma fl_at_4: "fl (- (43810004743887607575294107493335 / 81129638414606681695789005144064)) = - (607985949695017 / 1125899906842624)"
  using fl_value [of "- 53" "- (43810004743887607575294107493335 / 81129638414606681695789005144064)" "- 4863887597560136"]
  by (simp add: rne_def powr_neg_numeral)

lemma fl_at_5: "fl (29206669829258407752355848084521 / 81129638414606681695789005144064) = 6485183463413515 / 18014398509481984"
  using fl_value [of "- 54" "29206669829258407752355848084521 / 81129638414606681695789005144064" "6485183463413515"]
  by (simp add: rne_def powr_neg_numeral)

lemma fl_at_6: "fl (- (16212958658533787 / 18014398509481984)) = - (4053239664633447 / 4503599627370496)"
  using fl_value [of "- 53" "- (16212958658533787 / 18014398509481984)" "- 8106479329266894"]
  by (simp add: rne_def powr_neg_numeral)

lemma fl_at_7: "fl (- (607985949695017 / 1125899906842624)) = - (607985949695017 / 1125899906842624)"
  using fl_value [of "- 53" "- (607985949695017 / 1125899906842624)" "- 4863887597560136"]
  by (simp add: rne_def powr_neg_numeral)

lemma fl_at_8: "fl (65715007115831415416180825873449 / 81129638414606681695789005144064) = 1823957849085051 / 2251799813685248"
  using fl_value [of "- 53" "65715007115831415416180825873449 / 81129638414606681695789005144064" "7295831396340204"]
  by (simp add: rne_def powr_neg_numeral)

lemma fl_at_9: "fl (- (1823957849085051 / 2251799813685248)) = - (1823957849085051 / 2251799813685248)"
  using fl_value [of "- 53" "- (1823957849085051 / 2251799813685248)" "- 7295831396340204"]
  by (simp add: rne_def powr_neg_numeral)

lemma fl_at_10: "fl (2431943798780068 / 4053239664633447) = 5404319552844595 / 9007199254740992"
  using fl_value [of "- 53" "2431943798780068 / 4053239664633447" "5404319552844595"]
  by (simp add: rne_def powr_neg_numeral)

lemma fl_at_11: "fl (1215971899390034 / 1351079888211149) = 2026619832316723 / 2251799813685248"
  using fl_value [of "- 53" "1215971899390034 / 1351079888211149" "8106479329266892"]
  by (simp add: rne_def powr_neg_numeral)

lemma fl_at_12: "fl (2026619832316723 / 2251799813685248) = 2026619832316723 / 2251799813685248"
  using fl_value [of "- 53" "2026619832316723 / 2251799813685248" "8106479329266892"]
  by (simp add: rne_def powr_neg_numeral)

lemma fl_at_13: "fl (- (1 / 9007199254740992)) = - (1 / 9007199254740992)"
  using fl_value [of "- 105" "- (1 / 9007199254740992)" "- 4503599627370496"]
  by (simp add: rne_def powr_neg_numeral)

lemma fl_at_14: "fl (- (2026619832316723 / 20282409603651670423947251286016)) = - (2026619832316723 / 20282409603651670423947251286016)"
  using fl_value [of "- 106" "- (2026619832316723 / 20282409603651670423947251286016)" "- 8106479329266892"]
  by (simp add: rne_def powr_neg_numeral)

lemma fl_at_15: "fl (- 2) = - 2"
  using fl_value [of "- 51" "- 2" "- 4503599627370496"]
  by (simp add: rne_def powr_neg_numeral)

lemma fl_at_16: "fl (1) = 1"
  using fl_value [of "- 52" "1" "4503599627370496"]
  by (simp add: rne_def powr_neg_numeral)

lemma fl_at_17: "fl (- 1) = - 1"
  using fl_value [of "- 52" "- 1" "- 4503599627370496"]
  by (simp add: rne_def powr_neg_numeral)

lemma fl_at_18: "fl (2) = 2"
  using fl_value [of "- 51" "2" "4503599627370496"]
  by (simp add: rne_def powr_neg_numeral)

lemma fl_at_19: "fl (- 4) = - 4"
  using fl_value [of "- 50" "- 4" "- 4503599627370496"]
  by (simp add: rne_def powr_neg_numeral)

lemmas fl_trace = fl_at_0 fl_at_1 fl_at_2 fl_at_3 fl_at_4 fl_at_5 fl_at_6 fl_at_7 fl_at_8 fl_at_9 fl_at_10 fl_at_11 fl_at_12 fl_at_13 fl_at_14 fl_at_15 fl_at_16 fl_at_17 fl_at_18 fl_at_19


lemma graze_point_f64:
  "intersection_f64 (line_f64 (1, 0) (d06, d09)) (line_f64 (0, 0) (d06, d09))
     = Inr (Some (5404319552844595 / 9007199254740992, 2026619832316723 / 2251799813685248))"
  by (simp add: intersection_f64_def line_f64_def py_div_f64_def d06_def d09_def Let_def fl_trace)

lemma line_line_f64_cases:
  "line_line_intersection_f64 a b s f =
     (case intersection_f64 (line_f64 a b) (line_f64 s f) of
        Inr (Some xy) \<Rightarrow>
          if dot_product_f64 (sub_f64 xy s) (sub_f64 xy f) \<ge> 0
             \<or> dot_product_f64 (sub_f64 xy a) (sub_f64 xy b) \<ge> 0
          then Inr (- 1)
          else line_length_f64 xy s
      | Inr None \<Rightarrow> Inr (- 1)
      | Inl e \<Rightarrow> Inl e)"
  by (simp add: line_line_intersection_f64_def Let_def ebind_def split: sum.splits option.splits)

lemma line_length_f64_nonneg: "\<exists>d. line_length_f64 p q = Inr d \<and> 0 \<le> d"
proof -
  have "0 \<le> fl (fl (fl (fst p - fst q) * fl (fst p - fst q))
                    + fl (fl (snd p - snd q) * fl (snd p - snd q)))"
    by (intro fl_nonneg add_nonneg_nonneg) simp_all
  then show ?thesis
    by (simp add: line_length_f64_def py_sqrt_f64_def not_less fl_nonneg)
qed

lemma sub_f64_self [simp]: "sub_f64 p p = (0, 0)"
  by (simp add: sub_f64_def)

lemma dot_f64_zero [simp]: "dot_product_f64 (0, 0) w = 0" "dot_product_f64 w (0, 0) = 0"
  by (simp_all add: dot_product_f64_def)

text \<open>
  Claim C7, as the code has it. In exact arithmetic, a ray whose line passes through an
  end point of the segment, or a segment whose line passes through the sensor or the far
  point, gives \<open>-1\<close>; a hit is reported only when both dot products are strictly negative,
  and then the point is where the two lines meet. On doubles the same test is made on the
  computed dot products: a computed meeting point equal to one of the four points gives
  \<open>-1\<close>, and a hit is reported only when both computed dot products are strictly negative.
\<close>

theorem endpoint_ties_no_hit:
  "(on_line s f a \<or> on_line s f b \<or> on_line a b s \<or> on_line a b f
      \<longrightarrow> line_line_intersection a b s f = Inr (- 1))
   \<and> (line_line_intersection a b s f \<noteq> Inr (- 1)
      \<longrightarrow> (\<exists>q. intersection (line a b) (line s f) = Inr (Some q)
             \<and> on_line a b q \<and> on_line s f q
             \<and> dot_product (sub q s) (sub q f) < 0 \<and> dot_product (sub q a) (sub q b) < 0
             \<and> line_line_intersection a b s f
                 = Inr (sqrt ((fst q - fst s) * (fst q - fst s) + (snd q - snd s) * (snd q - snd s)))))
   \<and> (intersection_f64 (line_f64 a b) (line_f64 s f) = Inr (Some p) \<and> (p = a \<or> p = b \<or> p = s \<or> p = f)
      \<longrightarrow> line_line_intersection_f64 a b s f = Inr (- 1))
   \<and> (line_line_intersection_f64 a b s f \<noteq> Inr (- 1)
      \<longrightarrow> (\<exists>q. intersection_f64 (line_f64 a b) (line_f64 s f) = Inr (Some q)
             \<and> dot_product_f64 (sub_f64 q s) (sub_f64 q f) < 0
             \<and> dot_product_f64 (sub_f64 q a) (sub_f64 q b) < 0
             \<and> line_line_intersection_f64 a b s f = line_length_f64 q s))"
proof (intro conjI impI)
  assume "on_line s f a \<or> on_line s f b \<or> on_line a b s \<or> on_line a b f"
  then show "line_line_intersection a b s f = Inr (- 1)"
    by (rule graze_no_hit)
next
  assume h: "line_line_intersection a b s f \<noteq> Inr (- 1)"
  then obtain q where q: "intersection (line a b) (line s f) = Inr (Some q)"
    by (auto simp: line_line_cases line_eq intersection_total split: if_splits)
  with h intersection_on_lines [OF q]
  show "\<exists>q. intersection (line a b) (line s f) = Inr (Some q)
             \<and> on_line a b q \<and> on_line s f q
             \<and> dot_product (sub q s) (sub q f) < 0 \<and> dot_product (sub q a) (sub q b) < 0
             \<and> line_line_intersection a b s f
                 = Inr (sqrt ((fst q - fst s) * (fst q - fst s) + (snd q - snd s) * (snd q - snd s)))"
    by (auto simp: line_line_cases split: if_splits)
next
  assume "intersection_f64 (line_f64 a b) (line_f64 s f) = Inr (Some p) \<and> (p = a \<or> p = b \<or> p = s \<or> p = f)"
  then show "line_line_intersection_f64 a b s f = Inr (- 1)"
    by (auto simp: line_line_f64_cases)
next
  assume h: "line_line_intersection_f64 a b s f \<noteq> Inr (- 1)"
  show "\<exists>q. intersection_f64 (line_f64 a b) (line_f64 s f) = Inr (Some q)
             \<and> dot_product_f64 (sub_f64 q s) (sub_f64 q f) < 0
             \<and> dot_product_f64 (sub_f64 q a) (sub_f64 q b) < 0
             \<and> line_line_intersection_f64 a b s f = line_length_f64 q s"
  proof (cases "intersection_f64 (line_f64 a b) (line_f64 s f)")
    case (Inl e)
    then show ?thesis
      by (simp add: intersection_f64_def py_div_f64_def Let_def split: if_splits)
  next
    case (Inr o1)
    with h show ?thesis
      by (cases o1) (auto simp: line_line_f64_cases split: if_splits)
  qed
qed

theorem endpoint_ties_no_hit_witness:
  "on_line (0, 1) (2, 1) (1, 1)
   \<and> line_line_intersection (1, - 1) (1, 1) (0, 1) (2, 1) = Inr (- 1)
   \<and> line_line_intersection (1, - 1) (1, 1) (0, 0) (2, 0) = Inr 1
   \<and> intersection_f64 (line_f64 (1, - 1) (1, 1)) (line_f64 (0, 1) (2, 1)) = Inr (Some (1, 1))
   \<and> line_line_intersection_f64 (1, - 1) (1, 1) (0, 1) (2, 1) = Inr (- 1)"
proof -
  have o: "on_line (0, 1) (2, 1) (1, 1)"
    by (simp add: on_line_def)
  have h: "line_line_intersection (1, - 1) (1, 1) (0, 0) (2, 0) \<noteq> Inr (- 1)"
    by (simp add: line_line_cases line_eq intersection_total dot_product_def sub_def)
  have i: "intersection_f64 (line_f64 (1, - 1) (1, 1)) (line_f64 (0, 1) (2, 1)) = Inr (Some (1, 1))"
    by (simp add: intersection_f64_def line_f64_def py_div_f64_def Let_def fl_trace)
  from endpoint_ties_no_hit [of "(0, 1)" "(2, 1)" "(1, - 1)" "(1, 1)" "(1, 1)"] o i
  have 1: "line_line_intersection (1, - 1) (1, 1) (0, 1) (2, 1) = Inr (- 1)"
    and 3: "line_line_intersection_f64 (1, - 1) (1, 1) (0, 1) (2, 1) = Inr (- 1)"
    by simp_all
  from endpoint_ties_no_hit [of "(0, 0)" "(2, 0)" "(1, - 1)" "(1, 1)" "(1, 1)"] h
  have 2: "line_line_intersection (1, - 1) (1, 1) (0, 0) (2, 0) = Inr 1"
    by (auto simp: line_eq intersection_total)
  from o i 1 2 3 show ?thesis by simp
qed

text \<open>
  Claim C7 as written fails on doubles. The ray from \<open>(0, 0)\<close> to the far point
  \<open>(0.6, 0.9)\<close> ends exactly on the end point \<open>(0.6, 0.9)\<close> of the segment from \<open>(1, 0)\<close>.
  In exact arithmetic the lines meet there and the result is \<open>-1\<close>. On doubles the computed
  point is \<open>(0.6, 0.8999999999999999)\<close>, both computed dot products are negative, and a hit
  is reported.
\<close>

theorem endpoint_graze_f64_counterexample:
  "on_line (0, 0) (d06, d09) (d06, d09)
   \<and> intersection (line (1, 0) (d06, d09)) (line (0, 0) (d06, d09)) = Inr (Some (d06, d09))
   \<and> line_line_intersection (1, 0) (d06, d09) (0, 0) (d06, d09) = Inr (- 1)
   \<and> line_line_intersection_f64 (1, 0) (d06, d09) (0, 0) (d06, d09) \<noteq> Inr (- 1)"
proof -
  have o: "on_line (0, 0) (d06, d09) (d06, d09)"
    by (rule on_line_ends)
  have nz: "(snd (1, 0) - snd (d06, d09)) * (fst (d06, d09) - fst (0, 0))
      - (fst (d06, d09) - fst (1, 0)) * (snd (0, 0) - snd (d06, d09)) \<noteq> (0::real)"
    by (simp add: d06_def d09_def)
  have i: "intersection (line (1, 0) (d06, d09)) (line (0, 0) (d06, d09)) = Inr (Some (d06, d09))"
    by (rule intersection_unique [OF nz on_line_ends(2) o])
  have r: "line_line_intersection (1, 0) (d06, d09) (0, 0) (d06, d09) = Inr (- 1)"
    using o by (intro graze_no_hit) simp
  have d1: "dot_product_f64
      (sub_f64 (5404319552844595 / 9007199254740992, 2026619832316723 / 2251799813685248) (0, 0))
      (sub_f64 (5404319552844595 / 9007199254740992, 2026619832316723 / 2251799813685248) (d06, d09)) < 0"
    by (simp add: dot_product_f64_def sub_f64_def d06_def d09_def fl_trace)
  have d2: "dot_product_f64
      (sub_f64 (5404319552844595 / 9007199254740992, 2026619832316723 / 2251799813685248) (1, 0))
      (sub_f64 (5404319552844595 / 9007199254740992, 2026619832316723 / 2251799813685248) (d06, d09)) < 0"
    by (simp add: dot_product_f64_def sub_f64_def d06_def d09_def fl_trace)
  obtain d where d: "line_length_f64
      (5404319552844595 / 9007199254740992, 2026619832316723 / 2251799813685248) (0, 0) = Inr d"
    and dn: "0 \<le> d"
    using line_length_f64_nonneg by blast
  have "line_line_intersection_f64 (1, 0) (d06, d09) (0, 0) (d06, d09) = Inr d"
    using d1 d2 d by (simp add: line_line_f64_cases graze_point_f64 not_le)
  with dn have "line_line_intersection_f64 (1, 0) (d06, d09) (0, 0) (d06, d09) \<noteq> Inr (- 1)"
    by simp
  with o i r show ?thesis by simp
qed

section \<open>The ToF ring\<close>

text \<open>
  In the ring a constructor builds from the fresh class, the sensor with index 135 faces
  0 rad and has the mount offset 0.2 m: it is the sensor of \<open>single_tof\<close>.
\<close>

lemma foldl_init_beam_lists:
  "phi_tof (foldl init_beam cls xs) = phi_tof cls @ map (\<lambda>i. real i * angle_inc + angle_min) xs
   \<and> t_tof (foldl init_beam cls xs) = t_tof cls @ map (\<lambda>i. offset_tof) xs"
  by (induction xs arbitrary: cls) (simp_all add: init_beam_def)

lemma foldl_init_slot_keeps:
  "phi_tof (foldl init_slot cls xs) = phi_tof cls \<and> t_tof (foldl init_slot cls xs) = t_tof cls"
  by (induction xs arbitrary: cls) (simp_all add: init_slot_def)

lemma first_ring_faces_ahead:
  "phi_tof (fst (Robot_init Robot_class x y th now)) ! 135 = 0
   \<and> t_tof (fst (Robot_init Robot_class x y th now)) ! 135 = 0.2"
  by (simp add: Robot_init_def Let_def foldl_init_slot_keeps foldl_init_beam_lists Robot_class_def
      laserbeams_def angle_inc_def angle_min_def offset_tof_def)

lemma single_pos:
  assumes "theta self = 0" and "coords self = (x, y)"
  shows "get_pos_tof single_tof self =
     Inr \<lparr>phi_tof = [0], t_tof = [0.2], v_face = [(1, 0)], pos_tof = [(x + 0.2, y)], far_tof = [(0, 0)]\<rparr>"
  using assms
  by (simp add: get_pos_tof_def get_facing_tof_def single_tof_def list_set_def list_get_def)

lemma single_far:
  assumes "theta self = 0" and "coords self = (x, y)"
  shows "get_far_tof \<lparr>phi_tof = [0], t_tof = [0.2], v_face = [(1, 0)], pos_tof = ps, far_tof = [(0, 0)]\<rparr> self =
     Inr \<lparr>phi_tof = [0], t_tof = [0.2], v_face = [(1, 0)], pos_tof = ps, far_tof = [(x + 8.2, y)]\<rparr>"
  using assms
  by (simp add: get_far_tof_def get_facing_tof_def list_set_def list_get_def rng_tof_def)

lemma ahead_hit:
  assumes "0.2 < D" "D < 8.2" "0 < h"
  shows "line_line_intersection (x + D, y - h) (x + D, y + h) (x + 0.2, y) (x + 8.2, y) = Inr (D - 0.2)"
proof -
  have i: "intersection (line (x + D, y - h) (x + D, y + h)) (line (x + 0.2, y) (x + 8.2, y))
        = Inr (Some (x + D, y))"
    using assms by (simp add: line_eq intersection_total field_simps)
  have d1: "dot_product (sub (x + D, y) (x + 0.2, y)) (sub (x + D, y) (x + 8.2, y)) < 0"
    using assms by (simp add: dot_product_def sub_def mult_pos_neg)
  have d2: "dot_product (sub (x + D, y) (x + D, y - h)) (sub (x + D, y) (x + D, y + h)) < 0"
    using assms by (simp add: dot_product_def sub_def)
  have "sqrt ((D - 0.2) * (D - 0.2)) = D - 0.2"
    using assms by simp
  with i d1 d2 show ?thesis
    by (simp add: line_line_cases not_le)
qed

lemma line_obstacle_value:
  assumes "theta self = 0" and "coords self = (x, y)" and "0.2 < D" and "D < 8" and "0 < h"
  shows "get_distance_to_line_obstacle single_tof self (x + D, y - h) (x + D, y + h) [] =
     Inr ([D], \<lparr>phi_tof = [0], t_tof = [0.2], v_face = [(1, 0)],
                pos_tof = [(x + 0.2, y)], far_tof = [(x + 8.2, y)]\<rparr>)"
proof -
  have hit: "line_line_intersection (x + D, y - h) (x + D, y + h) (x + 0.2, y) (x + 8.2, y) = Inr (D - 0.2)"
    using assms by (intro ahead_hit) simp_all
  have seed: "seed_distances single_tof [] = [8]"
    by (simp add: seed_distances_def single_tof_def rng_tof_def)
  have loop: "line_obstacle_loop (x + D, y - h) (x + D, y + h)
      \<lparr>phi_tof = [0], t_tof = [0.2], v_face = [(1, 0)], pos_tof = [(x + 0.2, y)], far_tof = [(x + 8.2, y)]\<rparr>
      [0 ..< 1] [8] = Inr [D]"
    using assms(3,4) hit by (simp add: list_get_def list_set_def Let_def)
  show ?thesis
    unfolding get_distance_to_line_obstacle_def Let_def seed
      single_pos [OF assms(1,2)] ebind_Inr single_far [OF assms(1,2)]
    using loop by simp
qed

text \<open>
  Claim C2, as the code has it. For one sensor facing 0 rad, mounted 0.2 m from the centre
  of a robot with heading 0, and a vertical segment crossing the ray \<open>D\<close> metres ahead of
  the robot centre (\<open>0.2 < D < 8\<close>), the line-obstacle query reports \<open>D\<close>: the code adds the
  mount offset to the distance between sensor and obstacle, so the reading is the distance
  from the centre. At 1 m it reports 1.0.
\<close>

theorem line_obstacle_ahead:
  assumes "theta self = 0" and "coords self = (x, y)" and "0.2 < D" and "D < 8" and "0 < h"
  shows "get_distance_to_line_obstacle single_tof self (x + D, y - h) (x + D, y + h) [] =
     Inr ([D], \<lparr>phi_tof = [0], t_tof = [0.2], v_face = [(1, 0)],
                pos_tof = [(x + 0.2, y)], far_tof = [(x + 8.2, y)]\<rparr>)"
  using assms by (rule line_obstacle_value)

theorem line_obstacle_ahead_witness:
  "theta at_origin = 0 \<and> coords at_origin = (0, 0)
   \<and> get_distance_to_line_obstacle single_tof at_origin (1, - 1) (1, 1) [] =
     Inr ([1], \<lparr>phi_tof = [0], t_tof = [0.2], v_face = [(1, 0)],
                pos_tof = [(0.2, 0)], far_tof = [(8.2, 0)]\<rparr>)"
  using line_obstacle_ahead [of at_origin 0 0 1 1] by (simp add: at_origin_def)

text \<open>
  Claim C2 as written fails: for the segment from \<open>(1, -1)\<close> to \<open>(1, 1)\<close> the reported list
  is not \<open>[0.8]\<close>.
\<close>

theorem line_obstacle_ahead_counterexample:
  "map_sum id fst (get_distance_to_line_obstacle single_tof at_origin (1, - 1) (1, 1) []) \<noteq> Inr [0.8]"
  using line_obstacle_value [of at_origin 0 0 1 1] by (simp add: at_origin_def)

section \<open>Construction and the shared ToF lists\<close>

lemma foldl_init_beam_phi:
  "length (phi_tof (foldl init_beam cls xs)) = length (phi_tof cls) + length xs"
  by (induction xs arbitrary: cls) (simp_all add: init_beam_def)

lemma foldl_init_slot_phi:
  "phi_tof (foldl init_slot cls xs) = phi_tof cls"
  by (induction xs arbitrary: cls) (simp_all add: init_slot_def)

lemma Robot_init_phi:
  "length (phi_tof (fst (Robot_init cls x y th now))) = length (phi_tof cls) + laserbeams"
  by (simp add: Robot_init_def Let_def foldl_init_slot_phi foldl_init_beam_phi)

lemma construct_phi:
  "construct_robots cls args = (cls', robots) \<Longrightarrow>
     length (phi_tof cls') = length (phi_tof cls) + length args * laserbeams
     \<and> length robots = length args"
proof (induction args arbitrary: cls cls' robots)
  case Nil
  then show ?case by simp
next
  case (Cons a args)
  obtain x y th now where a: "a = (x, y, th, now)" by (cases a) auto
  obtain cls1 r where i: "Robot_init cls x y th now = (cls1, r)" by fastforce
  obtain cls2 rs where c: "construct_robots cls1 args = (cls2, rs)" by fastforce
  from Cons.prems a i c have e: "cls' = cls2" "robots = r # rs" by simp_all
  from Robot_init_phi [of cls x y th now] i
  have "length (phi_tof cls1) = length (phi_tof cls) + laserbeams" by simp
  with Cons.IH [OF c] e show ?case by simp
qed

text \<open>
  Claim C10. The angle list is one list of the class, and every construction appends 271
  entries to it. After \<open>k\<close> robots have been constructed from the fresh class,
  \<open>get_tof_count\<close> is \<open>k * 271\<close> on each of them, the earlier ones included.
\<close>

theorem tof_count_shared:
  assumes "construct_robots Robot_class args = (cls, robots)" and "r \<in> set robots"
  shows "get_tof_count cls r = length args * 271"
  using construct_phi [OF assms(1)]
  by (simp add: get_tof_count_def Robot_class_def laserbeams_def)

theorem tof_count_shared_witness:
  "length (snd (construct_robots Robot_class [(0, 0, 0, 0), (1, 1, 0, 5)])) = 2
   \<and> get_tof_count (fst (construct_robots Robot_class [(0, 0, 0, 0), (1, 1, 0, 5)]))
        (hd (snd (construct_robots Robot_class [(0, 0, 0, 0), (1, 1, 0, 5)]))) = 542
   \<and> get_tof_count (fst (construct_robots Robot_class [(0, 0, 0, 0)]))
        (hd (snd (construct_robots Robot_class [(0, 0, 0, 0)]))) = 271"
proof -
  let ?two = "construct_robots Robot_class [(0, 0, 0, 0), (1, 1, 0, 5)]"
  let ?one = "construct_robots Robot_class [(0, 0, 0, 0)]"
  have l2: "length (snd ?two) = 2" and l1: "length (snd ?one) = 1"
    by (simp_all add: split_beta Let_def)
  have m2: "hd (snd ?two) \<in> set (snd ?two)"
    using l2 by (metis hd_in_set length_0_conv zero_neq_numeral)
  have m1: "hd (snd ?one) \<in> set (snd ?one)"
    using l1 by (metis hd_in_set length_0_conv zero_neq_one)
  have "get_tof_count (fst ?two) (hd (snd ?two)) = 542"
    using tof_count_shared [OF _ m2, of "[(0, 0, 0, 0), (1, 1, 0, 5)]" "fst ?two"] by simp
  moreover have "get_tof_count (fst ?one) (hd (snd ?one)) = 271"
    using tof_count_shared [OF _ m1, of "[(0, 0, 0, 0)]" "fst ?one"] by simp
  ultimately show ?thesis using l2 by simp
qed

section \<open>A ray through the centre of a circle\<close>







section \<open>The raster scanner\<close>

text \<open>The loop of \<open>bresenham_line\<close> ends for all end points.\<close>

lemma bres_arith:
  fixes rx ry dx dy err :: int
  assumes rx: "0 \<le> rx" "rx \<le> dx" and ry: "0 \<le> ry" "ry \<le> dy"
    and err: "err = dx - dy + rx * dy - ry * dx"
    and todo: "0 < rx \<or> 0 < ry"
  shows "(- dy < err * 2 \<longrightarrow> 0 < rx) \<and> (err * 2 < dx \<longrightarrow> 0 < ry) \<and> (- dy < err * 2 \<or> err * 2 < dx)"
proof (intro conjI impI)
  assume a: "- dy < err * 2"
  show "0 < rx"
  proof (rule ccontr)
    assume "\<not> 0 < rx"
    with rx have z: "rx = 0" by simp
    with todo have "1 \<le> ry" by simp
    with rx have "1 * dx \<le> ry * dx" by (intro mult_right_mono) simp_all
    with err z have "err \<le> - dy" by simp
    with a ry show False by simp
  qed
next
  assume a: "err * 2 < dx"
  show "0 < ry"
  proof (rule ccontr)
    assume "\<not> 0 < ry"
    with ry have z: "ry = 0" by simp
    with todo have "1 \<le> rx" by simp
    with ry have "1 * dy \<le> rx * dy" by (intro mult_right_mono) simp_all
    with err z have "dx \<le> err" by simp
    with a rx show False by simp
  qed
next
  show "- dy < err * 2 \<or> err * 2 < dx"
  proof (rule ccontr)
    assume "\<not> (- dy < err * 2 \<or> err * 2 < dx)"
    then have "dx + dy \<le> 0" by simp
    with rx ry todo show False by simp
  qed
qed

lemma bres_unit: "(s::int) = 1 \<or> s = - 1 \<Longrightarrow> (s * (a - b) = 0) = (b = a)"
  by auto

lemma bresenham_loop_terminates:
  assumes "bres_inv x1 y1 dx dy sx sy x0 y0 err"
  shows "\<exists>pts. bresenham_loop x1 y1 dx dy sx sy step x0 y0 err count points = Some pts"
  using assms
proof (induction "nat (sx * (x1 - x0) + sy * (y1 - y0))" arbitrary: x0 y0 err count points
    rule: less_induct)
  case less
  define rx where "rx = sx * (x1 - x0)"
  define ry where "ry = sy * (y1 - y0)"
  from less.prems have sx: "sx = 1 \<or> sx = - 1" and sy: "sy = 1 \<or> sy = - 1"
    and rx: "0 \<le> rx" "rx \<le> dx" and ry: "0 \<le> ry" "ry \<le> dy"
    and err: "err = dx - dy + rx * dy - ry * dx"
    by (simp_all add: bres_inv_def rx_def ry_def)
  show ?case
  proof (cases "x0 = x1 \<and> y0 = y1")
    case True
    then show ?thesis
      by (subst bresenham_loop.simps) (simp add: Let_def)
  next
    case False
    then have todo: "0 < rx \<or> 0 < ry"
      using rx ry bres_unit [OF sx, of x1 x0] bres_unit [OF sy, of y1 y0]
      by (auto simp: rx_def ry_def)
    note ar = bres_arith [OF rx ry err todo]
    define gx where "gx \<longleftrightarrow> - dy < err * 2"
    define gy where "gy \<longleftrightarrow> err * 2 < dx"
    define x0' where "x0' = (if gx then x0 + sx else x0)"
    define y0' where "y0' = (if gy then y0 + sy else y0)"
    define err1 where "err1 = (if gx then err - dy else err)"
    define err2 where "err2 = (if gy then err1 + dx else err1)"
    define rx' where "rx' = sx * (x1 - x0')"
    define ry' where "ry' = sy * (y1 - y0')"
    have sq: "sx * sx = 1" "sy * sy = 1" using sx sy by auto
    have rx': "rx' = (if gx then rx - 1 else rx)"
      by (simp add: rx'_def x0'_def rx_def algebra_simps sq)
    have ry': "ry' = (if gy then ry - 1 else ry)"
      by (simp add: ry'_def y0'_def ry_def algebra_simps sq)
    from ar have gxp: "gx \<longrightarrow> 0 < rx" and gyp: "gy \<longrightarrow> 0 < ry" and some: "gx \<or> gy"
      by (simp_all add: gx_def gy_def)
    have b1: "0 \<le> rx'" "rx' \<le> dx" "0 \<le> ry'" "ry' \<le> dy"
      using rx ry gxp gyp by (auto simp: rx' ry')
    have e2: "err2 = dx - dy + rx' * dy - ry' * dx"
      by (simp add: err2_def err1_def rx' ry' err algebra_simps)
    have inv': "bres_inv x1 y1 dx dy sx sy x0' y0' err2"
      using sx sy b1 e2 by (simp add: bres_inv_def rx'_def ry'_def)
    have "rx' + ry' < rx + ry"
      using some by (auto simp: rx' ry')
    then have dec: "nat (sx * (x1 - x0') + sy * (y1 - y0')) < nat (sx * (x1 - x0) + sy * (y1 - y0))"
      using b1 by (simp add: rx'_def ry'_def rx_def ry_def)
    have unroll: "bresenham_loop x1 y1 dx dy sx sy step x0 y0 err count points =
        bresenham_loop x1 y1 dx dy sx sy step x0' y0' err2 (count + 1)
          (if count mod step = 0 then points @ [(x0, y0)] else points)"
      unfolding x0'_def y0'_def err2_def err1_def gx_def gy_def
      by (subst bresenham_loop.simps) (simp only: Let_def if_not_P [OF False] gt_ex)
    from less.hyps [OF dec inv'] show ?thesis
      unfolding unroll .
  qed
qed

lemma bresenham_line_terminates:
  "\<exists>pts. bresenham_line x0 y0 x1 y1 step = Some pts"
  unfolding bresenham_line_def Let_def
  by (rule bresenham_loop_terminates) (auto simp: bres_inv_def)

lemma bresenham_line_example: "bresenham_line 0 0 7 3 3 = Some [(0,0), (3,1), (6,3)]"
  unfolding bresenham_line_def
  by (simp add: bresenham_loop.simps Let_def)

lemma tinted_refl: "tinted m m"
  by (simp add: tinted_def)

lemma tinted_trans: "tinted a b \<Longrightarrow> tinted b c \<Longrightarrow> tinted a c"
  unfolding tinted_def by (metis (no_types, lifting))

lemma tinted_same: "tinted m m' \<Longrightarrow> same_obstacles m m'"
  unfolding tinted_def same_obstacles_def
  by (metis (no_types, lifting) Pair_inject zero_neq_numeral numeral_eq_iff semiring_norm(88))

lemma tinted_set_at:
  "get_at m p \<noteq> (0, 0, 0) \<Longrightarrow> get_at m p \<noteq> (255, 0, 0) \<Longrightarrow> tinted m (set_at m p (0, 208, 255))"
  by (simp add: tinted_def set_at_def)

lemma same_set_at:
  "same_obstacles m n \<Longrightarrow> same_obstacles (set_at m p (0, 208, 255)) (set_at n p (0, 208, 255))"
  by (simp add: same_obstacles_def set_at_def)

lemma beam_loop_tinted:
  "tinted m (snd (beam_loop r_x r_y mtp ps distance m))"
proof (induction ps arbitrary: m)
  case Nil
  show ?case by (simp add: tinted_refl)
next
  case (Cons q ps)
  obtain x y where q: "q = (x, y)" by (cases q)
  show ?case
  proof (cases "0 < x \<and> x < get_width m \<and> 0 < y \<and> y < get_height m")
    case False
    with Cons.IH [of m] show ?thesis by (auto simp: q)
  next
    case True
    show ?thesis
    proof (cases "get_at m (x, y) = (0, 0, 0) \<or> get_at m (x, y) = (255, 0, 0)")
      case hit: True
      with True show ?thesis by (simp add: q Let_def tinted_refl)
    next
      case clear: False
      then have "tinted m (set_at m (x, y) (0, 208, 255))"
        by (intro tinted_set_at) simp_all
      from tinted_trans [OF this Cons.IH [of "set_at m (x, y) (0, 208, 255)"]] True clear
      show ?thesis by (simp add: q Let_def)
    qed
  qed
qed

lemma beam_loop_same:
  "same_obstacles m n \<Longrightarrow>
     fst (beam_loop r_x r_y mtp ps distance m) = fst (beam_loop r_x r_y mtp ps distance n)"
proof (induction ps arbitrary: m n)
  case Nil
  show ?case by simp
next
  case (Cons q ps)
  obtain x y where q: "q = (x, y)" by (cases q)
  from Cons.prems have wh: "get_width n = get_width m" "get_height n = get_height m"
    and ob: "(get_at n (x, y) = (0, 0, 0) \<or> get_at n (x, y) = (255, 0, 0))
           = (get_at m (x, y) = (0, 0, 0) \<or> get_at m (x, y) = (255, 0, 0))"
    by (simp_all add: same_obstacles_def)
  show ?case
  proof (cases "0 < x \<and> x < get_width m \<and> 0 < y \<and> y < get_height m")
    case False
    with Cons.IH [OF Cons.prems] wh show ?thesis by (auto simp: q)
  next
    case True
    show ?thesis
    proof (cases "get_at m (x, y) = (0, 0, 0) \<or> get_at m (x, y) = (255, 0, 0)")
      case hit: True
      with ob have "get_at n (x, y) = (0, 0, 0) \<or> get_at n (x, y) = (255, 0, 0)" by simp
      with hit True wh show ?thesis by (simp add: q Let_def)
    next
      case clear: False
      with ob have cn: "\<not> (get_at n (x, y) = (0, 0, 0) \<or> get_at n (x, y) = (255, 0, 0))" by simp
      from Cons.IH [OF same_set_at [OF Cons.prems, of "(x, y)"]] True clear cn wh
      show ?thesis by (simp add: q Let_def)
    qed
  qed
qed

lemma calculate_lidar_angle_runs:
  "\<exists>d m'. calculate_lidar_angle i a pose m mtp = Some (i, d, m') \<and> tinted m m'
     \<and> (\<forall>n. same_obstacles m n \<longrightarrow> (\<exists>n'. calculate_lidar_angle i a pose n mtp = Some (i, d, n')))"
proof -
  define x1 where "x1 = py_int (obstacle_radius * mtp * cos a + fst pose)"
  define y1 where "y1 = py_int (obstacle_radius * mtp * sin a + fst (snd pose))"
  define x2 where "x2 = py_int (fst pose + laser_range * mtp * cos a)"
  define y2 where "y2 = py_int (fst (snd pose) + laser_range * mtp * sin a)"
  obtain pts where pts: "bresenham_line x1 y1 x2 y2 3 = Some pts"
    using bresenham_line_terminates by blast
  have run: "\<And>k. calculate_lidar_angle i a pose k mtp =
      Some (i, fst (beam_loop (fst pose) (fst (snd pose)) mtp pts laser_range k),
               snd (beam_loop (fst pose) (fst (snd pose)) mtp pts laser_range k))"
    unfolding calculate_lidar_angle_def Let_def
      x1_def [symmetric] y1_def [symmetric] x2_def [symmetric] y2_def [symmetric] pts
    by (simp add: split_beta)
  let ?d = "fst (beam_loop (fst pose) (fst (snd pose)) mtp pts laser_range m)"
  let ?m' = "snd (beam_loop (fst pose) (fst (snd pose)) mtp pts laser_range m)"
  have "calculate_lidar_angle i a pose m mtp = Some (i, ?d, ?m')"
    by (rule run)
  moreover have "tinted m ?m'"
    by (rule beam_loop_tinted)
  moreover have "\<exists>n'. calculate_lidar_angle i a pose n mtp = Some (i, ?d, n')"
    if "same_obstacles m n" for n
  proof -
    have eq: "?d = fst (beam_loop (fst pose) (fst (snd pose)) mtp pts laser_range n)"
      using that by (rule beam_loop_same)
    show ?thesis unfolding eq using run [of n] by blast
  qed
  ultimately show ?thesis by blast
qed

lemma lidar_tasks_runs:
  "\<exists>ds m'. lidar_tasks pose ts ds0 m = Some (ds, m') \<and> tinted m m'
     \<and> (\<forall>n. same_obstacles m n \<longrightarrow> (\<exists>n'. lidar_tasks pose ts ds0 n = Some (ds, n')))"
proof (induction ts arbitrary: ds0 m)
  case Nil
  show ?case by (simp add: tinted_refl)
next
  case (Cons task ts)
  obtain i a where task: "task = (i, a)" by (cases task)
  from calculate_lidar_angle_runs [of i a pose m 100]
  obtain d m1 where one: "calculate_lidar_angle i a pose m 100 = Some (i, d, m1)"
    and t1: "tinted m m1"
    and s1: "\<And>n. same_obstacles m n \<Longrightarrow> \<exists>n'. calculate_lidar_angle i a pose n 100 = Some (i, d, n')"
    by blast
  from Cons.IH [of "ds0[i := d]" m1]
  obtain ds m2 where rest: "lidar_tasks pose ts (ds0[i := d]) m1 = Some (ds, m2)"
    and t2: "tinted m1 m2"
    and s2: "\<And>n. same_obstacles m1 n \<Longrightarrow> \<exists>n'. lidar_tasks pose ts (ds0[i := d]) n = Some (ds, n')"
    by blast
  have "lidar_tasks pose (task # ts) ds0 m = Some (ds, m2)"
    by (simp add: task one rest)
  moreover have "tinted m m2" using t1 t2 by (rule tinted_trans)
  moreover have "\<exists>n'. lidar_tasks pose (task # ts) ds0 n = Some (ds, n')" if sn: "same_obstacles m n" for n
  proof -
    from s1 [OF sn] obtain n1 where c: "calculate_lidar_angle i a pose n 100 = Some (i, d, n1)" by blast
    from calculate_lidar_angle_runs [of i a pose n 100] c have "tinted n n1" by auto
    then have "same_obstacles n n1" by (rule tinted_same)
    moreover have "same_obstacles m m1" using t1 by (rule tinted_same)
    ultimately have "same_obstacles m1 n1"
      using sn unfolding same_obstacles_def by simp
    from s2 [OF this] obtain n2 where "lidar_tasks pose ts (ds0[i := d]) n1 = Some (ds, n2)" by blast
    with c show ?thesis by (simp add: task)
  qed
  ultimately show ?case by blast
qed

text \<open>
  Claim C9. For a fixed map and a fixed pose, a scan returns a list of distances and a map,
  and a second scan on that map returns the same list. The map the first scan leaves differs
  from the given one only on cells that were neither black nor red, where it holds the tint
  \<open>(0, 208, 255)\<close>, itself neither black nor red.
\<close>

theorem lidar_scan_repeatable:
  "\<exists>ds m1 m2. LiDAR_sensing self pose m = Some (ds, m1) \<and> LiDAR_sensing self pose m1 = Some (ds, m2)
     \<and> (\<forall>p. get_at m1 p = get_at m p
            \<or> (get_at m p \<noteq> (0, 0, 0) \<and> get_at m p \<noteq> (255, 0, 0) \<and> get_at m1 p = (0, 208, 255)))"
proof -
  define ts where "ts = enumerate 0 (arange (- snd (snd pose) + angle_max self)
      (- snd (snd pose) + angle_min) (- angle_inc))"
  define ds0 :: "real list" where "ds0 = replicate (length (arange (- snd (snd pose) + angle_max self)
      (- snd (snd pose) + angle_min) (- angle_inc))) 0"
  have run: "\<And>k. LiDAR_sensing self pose k = lidar_tasks pose ts ds0 k"
    by (simp add: LiDAR_sensing_def Let_def ts_def ds0_def)
  from lidar_tasks_runs [of pose ts ds0 m]
  obtain ds m1 where a: "lidar_tasks pose ts ds0 m = Some (ds, m1)" and t: "tinted m m1"
    and s: "\<And>n. same_obstacles m n \<Longrightarrow> \<exists>n'. lidar_tasks pose ts ds0 n = Some (ds, n')"
    by blast
  from s [OF tinted_same [OF t]] obtain m2 where b: "lidar_tasks pose ts ds0 m1 = Some (ds, m2)"
    by blast
  from t have "\<forall>p. get_at m1 p = get_at m p
            \<or> (get_at m p \<noteq> (0, 0, 0) \<and> get_at m p \<noteq> (255, 0, 0) \<and> get_at m1 p = (0, 208, 255))"
    by (simp add: tinted_def)
  with a b show ?thesis unfolding run by blast
qed

end
